theory Spec2Isabelle
  imports Main
begin

section \<open>Godot tileset exporter (export\_to\_godot\_tileset.mjs)\<close>

text \<open>
  A shallow embedding of the class \<open>GodotTilesetExporter\<close> and of the registered
  format's \<open>write\<close> callback.  The exporter object (\<open>this\<close>) is a record that every
  method takes and returns; the local variables of \<open>iterateTiles\<close> (the autotile
  coordinate, the navigation identifier counter) and the host's console are the fields of a
  loop state.  Strings are \<open>char list\<close>.

  Numbers: tile identifiers, autotile coordinates and the navigation counter are naturals
  (the editor numbers tiles from 0 and the counter only grows), printed in decimal.  The
  geometry of an object and the metrics of the tileset are the host's numbers, IEEE
  doubles: their type \<open>'n\<close> is a parameter, and so are the host's addition and
  subtraction, its test \<open>> 0\<close> and its printing of them, as are \<open>parseFloat\<close> and the
  printing of the number it returns (record \<open>host\<close>).  What is proved holds for every
  such host.
\<close>

subsection \<open>Strings of the host language\<close>

text \<open>
  The host's text of a natural number (a tile identifier, an autotile coordinate, the
  navigation counter, an index): its decimal digits.
\<close>

fun natToString :: "nat \<Rightarrow> string" where
  "natToString n =
     (if n < 10 then [''0123456789'' ! n]
      else natToString (n div 10) @ [''0123456789'' ! (n mod 10)])"

declare natToString.simps [simp del]

definition boolToString :: "bool \<Rightarrow> string" where
  "boolToString b = (if b then ''true'' else ''false'')"

text \<open>\<open>Array.prototype.join\<close>.\<close>

fun join :: "string \<Rightarrow> string list \<Rightarrow> string" where
  "join sep [] = []"
| "join sep [s] = s"
| "join sep (s # t # ts) = s @ sep @ join sep (t # ts)"

text \<open>
  \<open>s.replace(/,\s*$/, "")\<close>: the pattern matches a comma followed only by white space up
  to the end of the string, so only the last comma can match; the match is removed.
  \<open>isSpace\<close> is the ASCII part of the class \<open>\s\<close>.
\<close>

definition isSpace :: "char \<Rightarrow> bool" where
  "isSpace c = (c \<in> set [CHR 0x09, CHR 0x0A, CHR 0x0B, CHR 0x0C, CHR 0x0D, CHR 0x20])"

definition replaceTrailingComma :: "string \<Rightarrow> string" where
  "replaceTrailingComma s =
     (case dropWhile isSpace (rev s) of
        [] \<Rightarrow> s
      | c # r \<Rightarrow> if c = CHR '','' then rev r else s)"

text \<open>
  The text the host prints for a number (\<open>Number::toString\<close>): it is not empty and is
  made of digits, a sign, a decimal point and an exponent mark, or is \<open>Infinity\<close>,
  \<open>-Infinity\<close> or \<open>NaN\<close>.
\<close>

typedef numberText = "{s :: string. s \<noteq> [] \<and> set s \<subseteq> set ''0123456789+-.eInfinityNaN''}"
  morphisms textOf NumberText
  by (rule exI [of _ "''0''"]) simp

setup_lifting type_definition_numberText

subsection \<open>The host's data model\<close>

record 'n point =
  ptX :: 'n
  ptY :: 'n

text \<open>A \<open>MapObject\<close>: \<open>x\<close>, \<open>y\<close>, \<open>width\<close>, \<open>height\<close>, \<open>polygon\<close>, \<open>type\<close>.\<close>

record 'n object =
  objX :: 'n
  objY :: 'n
  objWidth :: 'n
  objHeight :: 'n
  objPolygon :: "'n point list"
  objType :: string

text \<open>
  A \<open>Tile\<close>: \<open>id\<close>, the value of \<open>property('godot:z_index')\<close> (\<open>None\<close> is
  \<open>undefined\<close>), and \<open>objectGroup\<close> (\<open>None\<close> is \<open>null\<close>, otherwise its \<open>objects\<close>).
\<close>

record 'n tile =
  tileId :: nat
  zIndexProperty :: "string option"
  objectGroup :: "'n object list option"

record 'n tileset =
  tilesetName :: string
  tilesetImage :: string
  projectRoot :: "string option"
  relativePath :: "string option"
  imageWidth :: 'n
  imageHeight :: 'n
  margin :: 'n
  tileWidth :: 'n
  tileHeight :: 'n
  tileSpacing :: 'n
  tiles :: "'n tile list"

text \<open>
  What the exporter takes from outside this file: the helpers \<open>getResPath\<close> and
  \<open>getTilesetColumns\<close> of \<open>utils.mjs\<close>; the built-ins \<open>parseFloat\<close> (\<open>None\<close> is
  \<open>NaN\<close>) and the printing of the number it returns; and the host's arithmetic on the
  numbers of the geometry and the metrics: \<open>a + b\<close>, \<open>a - b\<close>, \<open>a > 0\<close> and the
  printing of a number.
\<close>

record ('n, 'z) host =
  getResPath :: "string option \<Rightarrow> string option \<Rightarrow> string \<Rightarrow> string"
  getTilesetColumns :: "'n tileset \<Rightarrow> int"
  parseFloat :: "string \<Rightarrow> 'z option"
  floatToString :: "'z \<Rightarrow> string"
  numAdd :: "'n \<Rightarrow> 'n \<Rightarrow> 'n"
  numSub :: "'n \<Rightarrow> 'n \<Rightarrow> 'n"
  numPositive :: "'n \<Rightarrow> bool"
  numberToString :: "'n \<Rightarrow> numberText"

datatype logEntry = Log string | Warn string

subsection \<open>The exporter object\<close>

record ('n, 'z) exporter =
  tileset :: "'n tileset"
  fileName :: string
  spriteImagePath :: string
  shapesResources :: string
  shapes :: string
  navpolyMap :: "string list"
  zIndexMap :: "(nat \<times> nat \<times> 'z) list"
  firstShapeID :: string

definition constructor :: "('n, 'z) host \<Rightarrow> 'n tileset \<Rightarrow> string \<Rightarrow> ('n, 'z) exporter" where
  "constructor h ts fname =
     \<lparr> tileset = ts,
       fileName = fname,
       spriteImagePath = getResPath h (projectRoot ts) (relativePath ts) (tilesetImage ts),
       shapesResources = '''',
       shapes = '''',
       navpolyMap = [],
       zIndexMap = [],
       firstShapeID = ''0'' \<rparr>"

subsection \<open>Text templates\<close>

definition getShapesTemplate :: "nat \<times> nat \<Rightarrow> bool \<Rightarrow> nat \<Rightarrow> string" where
  \<open>getShapesTemplate coordinates isOneWay shapeID =
     (let coordinateString = natToString (fst coordinates) @ '', '' @ natToString (snd coordinates)
      in ''{\<newline>''
       @ ''"autotile_coord": Vector2( '' @ coordinateString @ '' ),\<newline>''
       @ ''"one_way": '' @ boolToString isOneWay @ '',\<newline>''
       @ ''"one_way_margin": 1.0,\<newline>''
       @ ''"shape": SubResource( '' @ natToString shapeID @ '' ),\<newline>''
       @ ''"shape_transform": Transform2D( 1, 0, 0, 1, 0, 0 )\<newline>''
       @ ''}, '')\<close>

text \<open>
  The \<open>forEach\<close> loop of \<open>getCollisionShapePolygon\<close> and of
  \<open>getNavigationShapePolygon\<close> (the same text in both), with the \<open>replace\<close> after it.
\<close>

definition coordinateString :: "('n, 'z) host \<Rightarrow> 'n object \<Rightarrow> string" where
  "coordinateString h ob =
     replaceTrailingComma
       (foldl (\<lambda>acc coordinate.
                 (let coordinateX = numAdd h (objX ob) (ptX coordinate);
                      coordinateY = numAdd h (objY ob) (ptY coordinate)
                  in acc @ textOf (numberToString h coordinateX) @ '', ''
                         @ textOf (numberToString h coordinateY) @ '', ''))
              '''' (objPolygon ob))"

definition getCollisionShapePolygon :: "('n, 'z) host \<Rightarrow> nat \<Rightarrow> 'n object \<Rightarrow> string" where
  \<open>getCollisionShapePolygon h ident ob =
     ''[sub_resource type="ConvexPolygonShape2D" id='' @ natToString ident @ '']\<newline>''
     @ ''points = PoolVector2Array( '' @ coordinateString h ob @ '' )\<newline>''
     @ ''\<newline>''\<close>

definition getCollisionShapeRectangle :: "('n, 'z) host \<Rightarrow> nat \<Rightarrow> 'n object \<Rightarrow> string" where
  \<open>getCollisionShapeRectangle h ident ob =
     (let topLeft = (objX ob, objY ob);
          topRight = (numAdd h (objX ob) (objWidth ob), objY ob);
          bottomRight = (numAdd h (objX ob) (objWidth ob), numAdd h (objY ob) (objHeight ob));
          bottomLeft = (objX ob, numAdd h (objY ob) (objHeight ob))
      in ''[sub_resource type="ConvexPolygonShape2D" id='' @ natToString ident @ '']\<newline>''
       @ ''points = PoolVector2Array( ''
       @ textOf (numberToString h (fst topLeft)) @ '', ''
       @ textOf (numberToString h (snd topLeft)) @ '', ''
       @ textOf (numberToString h (fst topRight)) @ '', ''
       @ textOf (numberToString h (snd topRight)) @ '', ''
       @ textOf (numberToString h (fst bottomRight)) @ '', ''
       @ textOf (numberToString h (snd bottomRight)) @ '', ''
       @ textOf (numberToString h (fst bottomLeft)) @ '', ''
       @ textOf (numberToString h (snd bottomLeft))
       @ '' )\<newline>''
       @ ''\<newline>'')\<close>

definition getNavigationShapePolygon :: "('n, 'z) host \<Rightarrow> nat \<Rightarrow> 'n object \<Rightarrow> string" where
  \<open>getNavigationShapePolygon h ident ob =
     ''[sub_resource type="NavigationPolygon" id='' @ natToString ident @ '']\<newline>''
     @ ''vertices = PoolVector2Array( '' @ coordinateString h ob @ '' )\<newline>''
     @ ''polygons = [ PoolIntArray ( ''
     @ join '', '' (map natToString [0 ..< length (objPolygon ob)]) @ '' ) ]\<newline>''
     @ ''\<newline>''\<close>

definition getNavigationShapeRectangle :: "('n, 'z) host \<Rightarrow> nat \<Rightarrow> 'n object \<Rightarrow> string" where
  \<open>getNavigationShapeRectangle h ident ob =
     (let topLeft = (objX ob, objY ob);
          topRight = (numAdd h (objX ob) (objWidth ob), objY ob);
          bottomRight = (numAdd h (objX ob) (objWidth ob), numAdd h (objY ob) (objHeight ob));
          bottomLeft = (objX ob, numAdd h (objY ob) (objHeight ob))
      in ''[sub_resource type="NavigationPolygon" id='' @ natToString ident @ '']\<newline>''
       @ ''vertices = PoolVector2Array( ''
       @ textOf (numberToString h (fst topLeft)) @ '', ''
       @ textOf (numberToString h (snd topLeft)) @ '', ''
       @ textOf (numberToString h (fst topRight)) @ '', ''
       @ textOf (numberToString h (snd topRight)) @ '', ''
       @ textOf (numberToString h (fst bottomRight)) @ '', ''
       @ textOf (numberToString h (snd bottomRight)) @ '', ''
       @ textOf (numberToString h (fst bottomLeft)) @ '', ''
       @ textOf (numberToString h (snd bottomLeft))
       @ '' )\<newline>''
       @ ''polygons = [ PoolIntArray( 0, 1, 2, 3 ) ]\<newline>''
       @ ''\<newline>'')\<close>

definition getTilesetTemplate :: "('n, 'z) host \<Rightarrow> ('n, 'z) exporter \<Rightarrow> string" where
  \<open>getTilesetTemplate h e =
     ''[gd_resource type="TileSet" load_steps=3 format=2]\<newline>''
     @ ''\<newline>''
     @ ''[ext_resource path="res://'' @ spriteImagePath e @ ''" type="Texture" id=1]\<newline>''
     @ ''\<newline>''
     @ shapesResources e @ ''[resource]\<newline>''
     @ ''0/name = "'' @ tilesetName (tileset e) @ '' 0"\<newline>''
     @ ''0/texture = ExtResource( 1 )\<newline>''
     @ ''0/tex_offset = Vector2( 0, 0 )\<newline>''
     @ ''0/modulate = Color( 1, 1, 1, 1 )\<newline>''
     @ ''0/region = Rect2( '' @ textOf (numberToString h (margin (tileset e))) @ '', ''
         @ textOf (numberToString h (margin (tileset e))) @ '', ''
         @ textOf (numberToString h (numSub h (imageWidth (tileset e)) (margin (tileset e)))) @ '', ''
         @ textOf (numberToString h (numSub h (imageHeight (tileset e)) (margin (tileset e))))
         @ '' )\<newline>''
     @ ''0/tile_mode = 2\<newline>''
     @ ''0/autotile/icon_coordinate = Vector2( 0, 0 )\<newline>''
     @ ''0/autotile/tile_size = Vector2( '' @ textOf (numberToString h (tileWidth (tileset e)))
         @ '', '' @ textOf (numberToString h (tileHeight (tileset e))) @ '' )\<newline>''
     @ ''0/autotile/spacing = '' @ textOf (numberToString h (tileSpacing (tileset e))) @ ''\<newline>''
     @ ''0/autotile/occluder_map = [  ]\<newline>''
     @ ''0/autotile/navpoly_map = [ '' @ join '', '' (navpolyMap e) @ '' ]\<newline>''
     @ ''0/autotile/priority_map = [  ]\<newline>''
     @ ''0/autotile/z_index_map = [ ''
         @ join '', ''
             (map (\<lambda>(x, y, z). ''Vector3( ''
                     @ join '', '' [natToString x, natToString y, floatToString h z] @ '' )'')
                  (zIndexMap e))
         @ '' ]\<newline>''
     @ ''0/occluder_offset = Vector2( 0, 0 )\<newline>''
     @ ''0/navigation_offset = Vector2( 0, 0 )\<newline>''
     @ ''0/shape_offset = Vector2( 0, 0 )\<newline>''
     @ ''0/shape_transform = Transform2D( 1, 0, 0, 1, 0, 0 )\<newline>''
     @ ''0/shape = '' @ firstShapeID e @ ''\<newline>''
     @ ''0/shape_one_way = false\<newline>''
     @ ''0/shape_one_way_margin = 1.0\<newline>''
     @ ''0/shapes = [ '' @ shapes e @ '' ]\<newline>''
     @ ''0/z_index = 0\<newline>''\<close>

subsection \<open>Methods that update the exporter\<close>

definition exportShapes :: "'n tile \<Rightarrow> nat \<times> nat \<Rightarrow> bool \<Rightarrow> ('n, 'z) exporter \<Rightarrow> ('n, 'z) exporter" where
  "exportShapes t autotileCoordinates isOneWay e =
     (let e1 = (if firstShapeID e = ''''
                then e\<lparr>firstShapeID := ''SubResource( '' @ natToString (tileId t) @ '' )''\<rparr>
                else e)
      in e1\<lparr>shapes := shapes e1 @ getShapesTemplate autotileCoordinates isOneWay (tileId t)\<rparr>)"

definition exportNavigationShape :: "nat \<Rightarrow> nat \<times> nat \<Rightarrow> ('n, 'z) exporter \<Rightarrow> ('n, 'z) exporter" where
  "exportNavigationShape ident autotileCoordinates e =
     e\<lparr>navpolyMap := navpolyMap e
          @ [''Vector2( '' @ natToString (fst autotileCoordinates) @ '', ''
               @ natToString (snd autotileCoordinates) @ '' )'',
             ''SubResource( '' @ natToString ident @ '' )'']\<rparr>"

definition exportCollisions ::
  "('n, 'z) host \<Rightarrow> 'n object \<Rightarrow> 'n tile \<Rightarrow> nat \<times> nat \<Rightarrow> ('n, 'z) exporter \<Rightarrow> ('n, 'z) exporter" where
  "exportCollisions h ob t autotileCoordinates e =
     (let isOneWay = (objType ob = ''one-way'')
      in if length (objPolygon ob) > 0 then
           exportShapes t autotileCoordinates isOneWay
             (e\<lparr>shapesResources := shapesResources e @ getCollisionShapePolygon h (tileId t) ob\<rparr>)
         else if numPositive h (objWidth ob) \<and> numPositive h (objHeight ob) then
           exportShapes t autotileCoordinates isOneWay
             (e\<lparr>shapesResources := shapesResources e @ getCollisionShapeRectangle h (tileId t) ob\<rparr>)
         else e)"

definition exportNavigations ::
  "('n, 'z) host \<Rightarrow> 'n object \<Rightarrow> nat \<Rightarrow> nat \<times> nat \<Rightarrow> ('n, 'z) exporter \<Rightarrow> ('n, 'z) exporter" where
  "exportNavigations h ob ident autotileCoordinates e =
     (if length (objPolygon ob) > 0 then
        exportNavigationShape ident autotileCoordinates
          (e\<lparr>shapesResources := shapesResources e @ getNavigationShapePolygon h ident ob\<rparr>)
      else if numPositive h (objWidth ob) \<and> numPositive h (objHeight ob) then
        exportNavigationShape ident autotileCoordinates
          (e\<lparr>shapesResources := shapesResources e @ getNavigationShapeRectangle h ident ob\<rparr>)
      else e)"

subsection \<open>iterateTiles\<close>

text \<open>
  The state of the loops of \<open>iterateTiles\<close>: the exporter object, the locals
  \<open>autotileCoordinates\<close> and \<open>minNavId\<close>, and what \<open>tiled.warn\<close> and \<open>tiled.log\<close> have
  printed.
\<close>

record ('n, 'z) iterState =
  this :: "('n, 'z) exporter"
  autotileCoordinates :: "nat \<times> nat"
  minNavId :: nat
  console :: "logEntry list"

text \<open>The body of the inner loop, for one object of a tile.\<close>

definition objectStep ::
  "('n, 'z) host \<Rightarrow> 'n tile \<Rightarrow> 'n object \<Rightarrow> ('n, 'z) iterState \<Rightarrow> ('n, 'z) iterState" where
  "objectStep h t ob s =
     (if objType ob = ''navigation'' then
        (let s1 = s\<lparr>minNavId := minNavId s + 1\<rparr>
         in s1\<lparr>this := exportNavigations h ob (minNavId s1) (autotileCoordinates s1) (this s1)\<rparr>)
      else s\<lparr>this := exportCollisions h ob t (autotileCoordinates s) (this s)\<rparr>)"

fun objectsLoop ::
  "('n, 'z) host \<Rightarrow> 'n tile \<Rightarrow> 'n object list \<Rightarrow> ('n, 'z) iterState \<Rightarrow> ('n, 'z) iterState" where
  "objectsLoop h t [] s = s"
| "objectsLoop h t (ob # obs) s = objectsLoop h t obs (objectStep h t ob s)"

text \<open>The column check at the head of the outer loop's body.\<close>

definition wrapColumn :: "('n, 'z) host \<Rightarrow> ('n, 'z) iterState \<Rightarrow> ('n, 'z) iterState" where
  "wrapColumn h s =
     (let tilesetColumns = getTilesetColumns h (tileset (this s))
      in if int (fst (autotileCoordinates s) + 1) > tilesetColumns
         then s\<lparr>autotileCoordinates := (0, snd (autotileCoordinates s) + 1)\<rparr>
         else s)"

text \<open>The \<open>godot:z_index\<close> property of the tile.\<close>

definition zIndexWarning :: "'n tile \<Rightarrow> string \<Rightarrow> string" where
  "zIndexWarning t zIndex =
     ''Skipping export of godot:z_index on tile with id '' @ natToString (tileId t)
     @ '' because it can not be converted to float. value: '' @ zIndex"

definition exportZIndex :: "('n, 'z) host \<Rightarrow> 'n tile \<Rightarrow> ('n, 'z) iterState \<Rightarrow> ('n, 'z) iterState" where
  "exportZIndex h t s =
     (case zIndexProperty t of
        None \<Rightarrow> s
      | Some zIndex \<Rightarrow>
          (case parseFloat h zIndex of
             None \<Rightarrow> s\<lparr>console := console s @ [Warn (zIndexWarning t zIndex)]\<rparr>
           | Some zIndexFloat \<Rightarrow>
               s\<lparr>this := (this s)\<lparr>zIndexMap := zIndexMap (this s)
                    @ [(fst (autotileCoordinates s), snd (autotileCoordinates s), zIndexFloat)]\<rparr>\<rparr>))"

text \<open>The objects of the tile, when it has an object group.\<close>

definition exportObjects :: "('n, 'z) host \<Rightarrow> 'n tile \<Rightarrow> ('n, 'z) iterState \<Rightarrow> ('n, 'z) iterState" where
  "exportObjects h t s =
     (case objectGroup t of
        None \<Rightarrow> s
      | Some tileObjects \<Rightarrow> if length tileObjects > 0 then objectsLoop h t tileObjects s else s)"

definition tileStep :: "('n, 'z) host \<Rightarrow> 'n tile \<Rightarrow> ('n, 'z) iterState \<Rightarrow> ('n, 'z) iterState" where
  "tileStep h t s =
     (let s1 = wrapColumn h s;
          s2 = exportZIndex h t s1;
          s3 = exportObjects h t s2
      in s3\<lparr>autotileCoordinates := (fst (autotileCoordinates s3) + 1, snd (autotileCoordinates s3))\<rparr>)"

fun tilesLoop :: "('n, 'z) host \<Rightarrow> 'n tile list \<Rightarrow> ('n, 'z) iterState \<Rightarrow> ('n, 'z) iterState" where
  "tilesLoop h [] s = s"
| "tilesLoop h (t # ts) s = tilesLoop h ts (tileStep h t s)"

text \<open>The seed of the navigation counter: \<open>tiles.reduce(..., 0)\<close>.\<close>

definition initialNavId :: "'n tile list \<Rightarrow> nat" where
  "initialNavId ts = foldl (\<lambda>ident t. max ident (tileId t)) 0 ts"

definition initialState :: "('n, 'z) exporter \<Rightarrow> logEntry list \<Rightarrow> ('n, 'z) iterState" where
  "initialState e con =
     \<lparr> this = e,
       autotileCoordinates = (0, 0),
       minNavId = initialNavId (tiles (tileset e)),
       console = con \<rparr>"

definition iterateTiles :: "('n, 'z) host \<Rightarrow> ('n, 'z) exporter \<Rightarrow> logEntry list \<Rightarrow> ('n, 'z) exporter \<times> logEntry list" where
  "iterateTiles h e con =
     (let s = tilesLoop h (tiles (tileset e)) (initialState e con)
      in ((this s)\<lparr>shapes := replaceTrailingComma (shapes (this s))\<rparr>, console s))"

subsection \<open>write\<close>

text \<open>
  The host outside the exporter: the console and the files that \<open>TextFile\<close> has
  committed.
\<close>

record world =
  printed :: "logEntry list"
  files :: "string \<rightharpoonup> string"

definition writeToFile :: "('n, 'z) host \<Rightarrow> ('n, 'z) exporter \<Rightarrow> (string \<rightharpoonup> string) \<Rightarrow> (string \<rightharpoonup> string)" where
  "writeToFile h e fs = (let tilesetTemplate = getTilesetTemplate h e in fs(fileName e \<mapsto> tilesetTemplate))"

definition exporterWrite :: "('n, 'z) host \<Rightarrow> ('n, 'z) exporter \<Rightarrow> world \<Rightarrow> world" where
  "exporterWrite h e w =
     (let (e1, con) = iterateTiles h e (printed w);
          fs = writeToFile h e1 (files w)
      in \<lparr> printed = con @ [Log (''Tileset exported successfully to '' @ fileName e1)],
           files = fs \<rparr>)"

text \<open>\<open>customTilesetFormat.write\<close>, the callback the host calls.\<close>

definition formatWrite :: "('n, 'z) host \<Rightarrow> 'n tileset \<Rightarrow> string \<Rightarrow> world \<Rightarrow> world" where
  "formatWrite h ts fname w = exporterWrite h (constructor h ts fname) w"

subsection \<open>Notions of the specification\<close>

text \<open>
  The vertices the specification describes for a polygon object (the anchor added to each
  relative point, in the order of the points) and for a rectangle object (top-left,
  top-right, bottom-right, bottom-left), with the host's addition, and the text of a list
  of vertices, with the host's printing.
\<close>

definition absoluteVertices :: "('n, 'z) host \<Rightarrow> 'n object \<Rightarrow> ('n \<times> 'n) list" where
  "absoluteVertices h ob =
     map (\<lambda>p. (numAdd h (objX ob) (ptX p), numAdd h (objY ob) (ptY p))) (objPolygon ob)"

definition rectangleCorners :: "('n, 'z) host \<Rightarrow> 'n object \<Rightarrow> ('n \<times> 'n) list" where
  "rectangleCorners h ob =
     [(objX ob, objY ob),
      (numAdd h (objX ob) (objWidth ob), objY ob),
      (numAdd h (objX ob) (objWidth ob), numAdd h (objY ob) (objHeight ob)),
      (objX ob, numAdd h (objY ob) (objHeight ob))]"

definition vertexListText :: "('n, 'z) host \<Rightarrow> ('n \<times> 'n) list \<Rightarrow> string" where
  "vertexListText h vs =
     join '', '' (concat (map (\<lambda>(a, b). [textOf (numberToString h a), textOf (numberToString h b)]) vs))"

text \<open>
  An object builds a shape when it passes one of the two tests of \<open>exportCollisions\<close>
  and \<open>exportNavigations\<close>; its vertices are the polygon's or the rectangle's.
\<close>

definition buildsShape :: "('n, 'z) host \<Rightarrow> 'n object \<Rightarrow> bool" where
  "buildsShape h ob =
     (length (objPolygon ob) > 0 \<or> (numPositive h (objWidth ob) \<and> numPositive h (objHeight ob)))"

definition shapeVertices :: "('n, 'z) host \<Rightarrow> 'n object \<Rightarrow> ('n \<times> 'n) list" where
  "shapeVertices h ob =
     (if objPolygon ob \<noteq> [] then absoluteVertices h ob else rectangleCorners h ob)"





text \<open>
  The navigation map written for a list of (coordinate, identifier) pairs, and the
  invariant of the loops for it: the identifiers increase strictly and lie above the seed
  of the counter and at or below its current value.
\<close>

definition navpolyText :: "((nat \<times> nat) \<times> nat) list \<Rightarrow> string list" where
  "navpolyText ents =
     concat (map (\<lambda>(c, i). [''Vector2( '' @ natToString (fst c) @ '', '' @ natToString (snd c) @ '' )'',
                             ''SubResource( '' @ natToString i @ '' )'']) ents)"

definition navInvariant :: "nat \<Rightarrow> ((nat \<times> nat) \<times> nat) list \<Rightarrow> ('n, 'z) iterState \<Rightarrow> bool" where
  "navInvariant seed ents s =
     (seed \<le> minNavId s \<and> navpolyMap (this s) = navpolyText ents
      \<and> sorted_wrt (<) (map snd ents)
      \<and> (\<forall>i \<in> set (map snd ents). seed < i \<and> i \<le> minNavId s))"

text \<open>
  A string ends with a list separator when its last character that is not white space is
  a comma.  The accumulated shapes text is empty or ends with the separator of the last
  entry.
\<close>

definition endsWithSeparator :: "string \<Rightarrow> bool" where
  "endsWithSeparator s =
     (case dropWhile isSpace (rev s) of [] \<Rightarrow> False | c # r \<Rightarrow> c = CHR '','')"

abbreviation entriesText :: "string \<Rightarrow> bool" where
  "entriesText x \<equiv> x = [] \<or> (\<exists>p. x = p @ ''}, '')"

text \<open>
  The document of a tileset: what a run started from a fresh exporter renders.  A run's
  state without the two things that differ between invocations, the destination path and
  the console.
\<close>

definition renderTileset :: "('n, 'z) host \<Rightarrow> 'n tileset \<Rightarrow> string" where
  "renderTileset h ts = getTilesetTemplate h (fst (iterateTiles h (constructor h ts '''') []))"

definition forgetRun :: "('n, 'z) iterState \<Rightarrow> ('n, 'z) iterState" where
  "forgetRun s = s\<lparr>this := (this s)\<lparr>fileName := ''''\<rparr>, console := []\<rparr>"

subsection \<open>A tileset to evaluate the exporter on\<close>

text \<open>
  An instance of the parameters: the image path is the image's name, the column count is
  the number of whole tiles in the image's width, and a number read by \<open>parseFloat\<close> is
  represented by its printed form, for the two strings of the table.  The geometry is
  integral: the numbers are integers, added exactly and printed in decimal, as the host
  does for integral doubles of this size.
\<close>

definition numToString :: "int \<Rightarrow> string" where
  "numToString i =
     (if i < 0 then CHR ''-'' # natToString (nat (- i)) else natToString (nat i))"

lift_definition integerText :: "int \<Rightarrow> numberText" is numToString
proof -
  fix i :: int
  have d: "''0123456789'' ! d \<in> set ''0123456789+-.eInfinityNaN''" if "d < 10" for d :: nat
  proof -
    have "''0123456789'' ! d \<in> set ''0123456789''" using that by (intro nth_mem) simp
    then show ?thesis by auto
  qed
  have n: "natToString n \<noteq> [] \<and> set (natToString n) \<subseteq> set ''0123456789+-.eInfinityNaN''" for n
  proof (induction n rule: natToString.induct)
    case (1 n)
    show ?case
    proof (cases "n < 10")
      case True
      then show ?thesis
        using d [of n] by (subst natToString.simps, subst (2) natToString.simps) simp
    next
      case False
      have "n mod 10 < 10" by simp
      from d [OF this] 1 False show ?thesis
        by (subst natToString.simps, subst (2) natToString.simps) simp
    qed
  qed
  show "numToString i \<noteq> [] \<and> set (numToString i) \<subseteq> set ''0123456789+-.eInfinityNaN''"
    using n [of "nat i"] n [of "nat (- i)"] by (simp add: numToString_def)
qed

definition demoHost :: "(int, string) host" where
  "demoHost =
     \<lparr> getResPath = (\<lambda>root rel img. img),
       getTilesetColumns =
         (\<lambda>ts. (imageWidth ts + tileSpacing ts - margin ts) div (tileWidth ts + tileSpacing ts)),
       parseFloat = map_of [(''1.5'', ''1.5''), (''2'', ''2'')],
       floatToString = (\<lambda>z. z),
       numAdd = (\<lambda>a b. a + b),
       numSub = (\<lambda>a b. a - b),
       numPositive = (\<lambda>a. a > 0),
       numberToString = integerText \<rparr>"

definition polygonObject :: "int object" where
  "polygonObject =
     \<lparr> objX = 5, objY = 5, objWidth = 0, objHeight = 0,
       objPolygon = [\<lparr>ptX = 0, ptY = 0\<rparr>, \<lparr>ptX = 10, ptY = 0\<rparr>,
                     \<lparr>ptX = 10, ptY = 10\<rparr>, \<lparr>ptX = 0, ptY = 10\<rparr>],
       objType = '''' \<rparr>"

definition rectangleObject :: "int object" where
  "rectangleObject =
     \<lparr> objX = 2, objY = 3, objWidth = 4, objHeight = 6, objPolygon = [], objType = ''one-way'' \<rparr>"

definition emptyObject :: "int object" where
  "emptyObject =
     \<lparr> objX = 1, objY = 1, objWidth = 0, objHeight = 8, objPolygon = [], objType = '''' \<rparr>"

definition plainTile :: "int tile" where
  "plainTile = \<lparr> tileId = 0, zIndexProperty = None, objectGroup = None \<rparr>"

definition navigationTile :: "int tile" where
  "navigationTile =
     \<lparr> tileId = 1, zIndexProperty = Some ''abc'',
       objectGroup = Some [polygonObject\<lparr>objType := ''navigation''\<rparr>,
                           emptyObject\<lparr>objType := ''navigation''\<rparr>,
                           rectangleObject\<lparr>objType := ''navigation''\<rparr>] \<rparr>"

definition demoTile :: "int tile" where
  "demoTile =
     \<lparr> tileId = 7, zIndexProperty = Some ''1.5'',
       objectGroup = Some [polygonObject, rectangleObject] \<rparr>"

definition demoTileset :: "int tileset" where
  "demoTileset =
     \<lparr> tilesetName = ''demo'', tilesetImage = ''demo.png'', projectRoot = None,
       relativePath = None, imageWidth = 32, imageHeight = 32, margin = 0, tileWidth = 16,
       tileHeight = 16, tileSpacing = 0, tiles = [plainTile, navigationTile, demoTile] \<rparr>"

definition demoExporter :: "(int, string) exporter" where
  "demoExporter = constructor demoHost demoTileset ''demo.tres''"

section \<open>Properties\<close>

subsection \<open>Numbers, separators and coordinate strings\<close>

text \<open>The text of a number is not empty and ends with one of its characters.\<close>

lemma textOf_nonempty: "textOf x \<noteq> []"
  using textOf [of x] by simp

lemma textOf_last: "last (textOf x) \<in> set ''0123456789+-.eInfinityNaN''"
  using textOf [of x] last_in_set [of "textOf x"] by blast

lemma textOf_integerText: "textOf (integerText i) = numToString i"
  by (rule integerText.rep_eq)

text \<open>The arithmetic of the demo host.\<close>

lemma demoHost_numbers:
  "numAdd demoHost a b = a + b"
  "numSub demoHost a b = a - b"
  "numPositive demoHost a = (a > 0)"
  "textOf (numberToString demoHost a) = numToString a"
  by (simp_all add: demoHost_def textOf_integerText)

lemma replaceTrailingComma_Nil: "replaceTrailingComma [] = []"
  by (simp add: replaceTrailingComma_def)

lemma replaceTrailingComma_sep: "replaceTrailingComma (s @ '', '') = s"
  by (simp add: replaceTrailingComma_def isSpace_def)

lemma join_sep: "xs \<noteq> [] \<Longrightarrow> concat (map (\<lambda>x. x @ sep) xs) = join sep xs @ sep"
  by (induction sep xs rule: join.induct) simp_all

lemma foldl_append_acc: "foldl (\<lambda>acc x. acc @ g x) acc xs = acc @ concat (map g xs)"
  by (induction xs arbitrary: acc) simp_all

lemma concat_pairs:
  "concat (map (\<lambda>p. f p @ sep @ g p @ sep) ps) =
   concat (map (\<lambda>x. x @ sep) (concat (map (\<lambda>p. [f p, g p]) ps)))"
  by (induction ps) simp_all

text \<open>
  The loop over the polygon's points followed by the removal of the trailing separator
  gives the joined list of the absolute coordinates.
\<close>

lemma coordinateString_eq: "coordinateString h ob = vertexListText h (absoluteVertices h ob)"
proof (cases "objPolygon ob = []")
  case True
  then show ?thesis
    by (simp add: coordinateString_def vertexListText_def absoluteVertices_def
        replaceTrailingComma_Nil)
next
  case False
  let ?px = "\<lambda>p. textOf (numberToString h (numAdd h (objX ob) (ptX p)))"
  let ?py = "\<lambda>p. textOf (numberToString h (numAdd h (objY ob) (ptY p)))"
  let ?flat = "concat (map (\<lambda>p. [?px p, ?py p]) (objPolygon ob))"
  have ne: "?flat \<noteq> []" using False by (cases "objPolygon ob") simp_all
  have "foldl (\<lambda>acc coordinate. acc @ ?px coordinate @ '', '' @ ?py coordinate @ '', '')
              '''' (objPolygon ob) = join '', '' ?flat @ '', ''"
    using foldl_append_acc [of "\<lambda>p. ?px p @ '', '' @ ?py p @ '', ''" "''''" "objPolygon ob"]
      concat_pairs [of ?px "'', ''" ?py "objPolygon ob"]
      join_sep [OF ne, of "'', ''"]
    by simp
  then have "coordinateString h ob = join '', '' ?flat"
    unfolding coordinateString_def Let_def by (simp only: replaceTrailingComma_sep)
  moreover have "vertexListText h (absoluteVertices h ob) = join '', '' ?flat"
    by (simp add: vertexListText_def absoluteVertices_def comp_def)
  ultimately show ?thesis by simp
qed

subsection \<open>Polygon and rectangle blocks\<close>

text \<open>
  Claim C6.  For an object with a non-empty polygon, the block that \<open>exportCollisions\<close>
  and the block that \<open>exportNavigations\<close> append to the shape resources list the
  object's anchor added to each relative point, in the order of the points, separated by
  a comma and a space.  The sums are the host's sums and the texts the host's texts of
  them, whatever the host's numbers are.  (The specification's example, the polygon (0,0),
  (10,0), (10,10), (0,10) anchored at (5,5), is the instance evaluated after the theorem,
  on integral numbers.)
\<close>

theorem polygon_vertices:
  \<open>objPolygon ob \<noteq> [] \<Longrightarrow>
     shapesResources (exportCollisions h ob t c e) =
       shapesResources e
       @ ''[sub_resource type="ConvexPolygonShape2D" id='' @ natToString (tileId t) @ '']\<newline>''
       @ ''points = PoolVector2Array( '' @ vertexListText h (absoluteVertices h ob) @ '' )\<newline>\<newline>''
   \<and> shapesResources (exportNavigations h ob i c e) =
       shapesResources e
       @ ''[sub_resource type="NavigationPolygon" id='' @ natToString i @ '']\<newline>''
       @ ''vertices = PoolVector2Array( '' @ vertexListText h (absoluteVertices h ob) @ '' )\<newline>''
       @ ''polygons = [ PoolIntArray ( ''
       @ join '', '' (map natToString [0 ..< length (objPolygon ob)]) @ '' ) ]\<newline>\<newline>''\<close>
  by (simp add: exportCollisions_def exportNavigations_def exportShapes_def
      exportNavigationShape_def getCollisionShapePolygon_def getNavigationShapePolygon_def
      coordinateString_eq Let_def)

theorem polygon_vertices_witness:
  \<open>objPolygon polygonObject \<noteq> []
   \<and> absoluteVertices demoHost polygonObject = [(5, 5), (15, 5), (15, 15), (5, 15)]
   \<and> shapesResources (exportCollisions demoHost polygonObject demoTile (0, 0) demoExporter) =
       ''[sub_resource type="ConvexPolygonShape2D" id=7]\<newline>points = PoolVector2Array( 5, 5, 15, 5, 15, 15, 5, 15 )\<newline>\<newline>''
   \<and> shapesResources (exportNavigations demoHost polygonObject 8 (0, 0) demoExporter) =
       ''[sub_resource type="NavigationPolygon" id=8]\<newline>vertices = PoolVector2Array( 5, 5, 15, 5, 15, 15, 5, 15 )\<newline>polygons = [ PoolIntArray ( 0, 1, 2, 3 ) ]\<newline>\<newline>''\<close>
proof -
  have ne: "objPolygon polygonObject \<noteq> []" by (simp add: polygonObject_def)
  have av: "absoluteVertices demoHost polygonObject = [(5, 5), (15, 5), (15, 15), (5, 15)]"
    by (simp add: absoluteVertices_def polygonObject_def demoHost_numbers)
  have vt: "vertexListText demoHost [(5, 5), (15, 5), (15, 15), (5, 15)] = ''5, 5, 15, 5, 15, 15, 5, 15''"
    by (simp add: vertexListText_def demoHost_numbers numToString_def natToString.simps)
  have n7: "natToString 7 = ''7''" "natToString 8 = ''8''" by (simp_all add: natToString.simps)
  have len: "map natToString [0 ..< length (objPolygon polygonObject)] = [''0'', ''1'', ''2'', ''3'']"
    by (simp add: polygonObject_def natToString.simps upt_rec)
  have sr: "shapesResources demoExporter = ''''" by (simp add: demoExporter_def constructor_def)
  have id7: "tileId demoTile = 7" by (simp add: demoTile_def)
  show ?thesis
    using polygon_vertices [OF ne, where h = demoHost and t = demoTile and c = "(0, 0)"
        and e = demoExporter and i = 8]
    by (simp add: ne av vt n7 len sr id7)
qed

text \<open>
  Claim C7.  For a rectangle object (no polygon, positive width and height), the block that
  \<open>exportCollisions\<close> and the block that \<open>exportNavigations\<close> append list the four
  corners clockwise from the top-left one: (x, y), (x + w, y), (x + w, y + h), (x, y + h),
  with the host's sums and the host's texts of them, whatever the host's numbers are.
  (The specification's example, the rectangle at (2,3) of width 4 and height 6, is the
  instance evaluated after the theorem, on integral numbers.)
\<close>

theorem rectangle_corners:
  \<open>objPolygon ob = [] \<Longrightarrow> numPositive h (objWidth ob) \<Longrightarrow> numPositive h (objHeight ob) \<Longrightarrow>
     shapesResources (exportCollisions h ob t c e) =
       shapesResources e
       @ ''[sub_resource type="ConvexPolygonShape2D" id='' @ natToString (tileId t) @ '']\<newline>''
       @ ''points = PoolVector2Array( '' @ vertexListText h (rectangleCorners h ob) @ '' )\<newline>\<newline>''
   \<and> shapesResources (exportNavigations h ob i c e) =
       shapesResources e
       @ ''[sub_resource type="NavigationPolygon" id='' @ natToString i @ '']\<newline>''
       @ ''vertices = PoolVector2Array( '' @ vertexListText h (rectangleCorners h ob) @ '' )\<newline>''
       @ ''polygons = [ PoolIntArray( 0, 1, 2, 3 ) ]\<newline>\<newline>''\<close>
  by (simp add: exportCollisions_def exportNavigations_def exportShapes_def
      exportNavigationShape_def getCollisionShapeRectangle_def getNavigationShapeRectangle_def
      vertexListText_def rectangleCorners_def Let_def)

theorem rectangle_corners_witness:
  \<open>objPolygon rectangleObject = [] \<and> numPositive demoHost (objWidth rectangleObject) \<and> numPositive demoHost (objHeight rectangleObject)
   \<and> rectangleCorners demoHost rectangleObject = [(2, 3), (6, 3), (6, 9), (2, 9)]
   \<and> shapesResources (exportCollisions demoHost rectangleObject demoTile (0, 0) demoExporter) =
       ''[sub_resource type="ConvexPolygonShape2D" id=7]\<newline>points = PoolVector2Array( 2, 3, 6, 3, 6, 9, 2, 9 )\<newline>\<newline>''
   \<and> shapesResources (exportNavigations demoHost rectangleObject 8 (0, 0) demoExporter) =
       ''[sub_resource type="NavigationPolygon" id=8]\<newline>vertices = PoolVector2Array( 2, 3, 6, 3, 6, 9, 2, 9 )\<newline>polygons = [ PoolIntArray( 0, 1, 2, 3 ) ]\<newline>\<newline>''\<close>
proof -
  have h: "objPolygon rectangleObject = []" "numPositive demoHost (objWidth rectangleObject)"
    "numPositive demoHost (objHeight rectangleObject)"
    by (simp_all add: rectangleObject_def demoHost_numbers)
  have rc: "rectangleCorners demoHost rectangleObject = [(2, 3), (6, 3), (6, 9), (2, 9)]"
    by (simp add: rectangleCorners_def rectangleObject_def demoHost_numbers)
  have vt: "vertexListText demoHost [(2, 3), (6, 3), (6, 9), (2, 9)] = ''2, 3, 6, 3, 6, 9, 2, 9''"
    by (simp add: vertexListText_def demoHost_numbers numToString_def natToString.simps)
  have n7: "natToString 7 = ''7''" "natToString 8 = ''8''" by (simp_all add: natToString.simps)
  have sr: "shapesResources demoExporter = ''''" by (simp add: demoExporter_def constructor_def)
  have id7: "tileId demoTile = 7" by (simp add: demoTile_def)
  show ?thesis
    using rectangle_corners [OF h, where t = demoTile and c = "(0, 0)" and e = demoExporter
        and i = 8]
    by (simp add: h rc vt n7 sr id7)
qed

subsection \<open>Objects that build no shape\<close>

text \<open>
  Claim C2, as amended.  Processing an object with an empty polygon and a width or height
  that is not positive appends no shape-resource text, no shape-assignment entry and no
  navigation-map entry, prints nothing and leaves the exporter object and the autotile
  coordinate as they were.  The one change is to the navigation counter, which the loop
  increments for every object of type \<open>navigation\<close> before it looks at the geometry; for
  an object of any other type the whole state is unchanged.
\<close>

theorem degenerate_object:
  "objPolygon ob = [] \<Longrightarrow> \<not> (numPositive h (objWidth ob) \<and> numPositive h (objHeight ob)) \<Longrightarrow>
     objectStep h t ob s =
       (if objType ob = ''navigation'' then s\<lparr>minNavId := minNavId s + 1\<rparr> else s)"
  by (auto simp add: objectStep_def exportNavigations_def exportCollisions_def Let_def)

theorem degenerate_object_witness:
  "objPolygon emptyObject = [] \<and> \<not> (numPositive demoHost (objWidth emptyObject) \<and> numPositive demoHost (objHeight emptyObject))
   \<and> objectStep demoHost demoTile emptyObject (initialState demoExporter []) = initialState demoExporter []
   \<and> objPolygon (emptyObject\<lparr>objType := ''navigation''\<rparr>) = []
   \<and> \<not> (numPositive demoHost (objWidth (emptyObject\<lparr>objType := ''navigation''\<rparr>)) \<and> numPositive demoHost (objHeight (emptyObject\<lparr>objType := ''navigation''\<rparr>)))
   \<and> objectStep demoHost navigationTile (emptyObject\<lparr>objType := ''navigation''\<rparr>) (initialState demoExporter [])
       = (initialState demoExporter [])\<lparr>minNavId := 8\<rparr>"
proof -
  have a: "objPolygon emptyObject = []" "\<not> (numPositive demoHost (objWidth emptyObject) \<and> numPositive demoHost (objHeight emptyObject))"
    by (simp_all add: emptyObject_def demoHost_numbers)
  have b: "objPolygon (emptyObject\<lparr>objType := ''navigation''\<rparr>) = []"
     "\<not> (numPositive demoHost (objWidth (emptyObject\<lparr>objType := ''navigation''\<rparr>)) \<and> numPositive demoHost (objHeight (emptyObject\<lparr>objType := ''navigation''\<rparr>)))"
    by (simp_all add: emptyObject_def demoHost_numbers)
  have ty: "objType emptyObject = ''''" by (simp add: emptyObject_def)
  have seed: "minNavId (initialState demoExporter []) = 7"
    by (simp add: initialState_def initialNavId_def demoExporter_def constructor_def demoTileset_def
        plainTile_def navigationTile_def demoTile_def)
  show ?thesis
    using degenerate_object [OF a, where t = demoTile and s = "initialState demoExporter []"]
      degenerate_object [OF b, where t = navigationTile and s = "initialState demoExporter []"]
    by (simp add: a b ty seed)
qed

text \<open>
  The claim as written (no state changes, the counter included) fails for a navigation
  object: the counter moves from 7 to 8.
\<close>

theorem degenerate_navigation_counterexample:
  "objPolygon (emptyObject\<lparr>objType := ''navigation''\<rparr>) = []
   \<and> objWidth (emptyObject\<lparr>objType := ''navigation''\<rparr>) = 0
   \<and> \<not> numPositive demoHost (objWidth (emptyObject\<lparr>objType := ''navigation''\<rparr>))
   \<and> minNavId (initialState demoExporter []) = 7
   \<and> minNavId (objectStep demoHost navigationTile (emptyObject\<lparr>objType := ''navigation''\<rparr>) (initialState demoExporter [])) = 8"
  by (simp add: objectStep_def exportNavigations_def Let_def emptyObject_def demoHost_numbers
      initialState_def initialNavId_def demoExporter_def constructor_def demoTileset_def
        plainTile_def navigationTile_def demoTile_def)

subsection \<open>What the loops leave unchanged\<close>

lemma objectStep_frame:
  "zIndexMap (this (objectStep h t ob s)) = zIndexMap (this s)"
  "console (objectStep h t ob s) = console s"
  "autotileCoordinates (objectStep h t ob s) = autotileCoordinates s"
  "tileset (this (objectStep h t ob s)) = tileset (this s)"
  by (simp_all add: objectStep_def exportCollisions_def exportNavigations_def
      exportNavigationShape_def exportShapes_def Let_def)

lemma objectsLoop_frame:
  "zIndexMap (this (objectsLoop h t obs s)) = zIndexMap (this s)"
  "console (objectsLoop h t obs s) = console s"
  "autotileCoordinates (objectsLoop h t obs s) = autotileCoordinates s"
  "tileset (this (objectsLoop h t obs s)) = tileset (this s)"
  by (induction obs arbitrary: s) (simp_all add: objectStep_frame)

lemma exportObjects_frame:
  "zIndexMap (this (exportObjects h t s)) = zIndexMap (this s)"
  "console (exportObjects h t s) = console s"
  "autotileCoordinates (exportObjects h t s) = autotileCoordinates s"
  "tileset (this (exportObjects h t s)) = tileset (this s)"
  by (simp_all add: exportObjects_def objectsLoop_frame split: option.splits)

lemma wrapColumn_frame:
  "this (wrapColumn h s) = this s"
  "console (wrapColumn h s) = console s"
  "minNavId (wrapColumn h s) = minNavId s"
  by (simp_all add: wrapColumn_def Let_def)

lemma objectStep_console_update:
  "objectStep h t ob (s\<lparr>console := con\<rparr>) = (objectStep h t ob s)\<lparr>console := con\<rparr>"
  by (simp add: objectStep_def Let_def)

lemma objectsLoop_console_update:
  "objectsLoop h t obs (s\<lparr>console := con\<rparr>) = (objectsLoop h t obs s)\<lparr>console := con\<rparr>"
  by (induction obs arbitrary: s) (simp_all add: objectStep_console_update)

lemma exportObjects_console_update:
  "exportObjects h t (s\<lparr>console := con\<rparr>) = (exportObjects h t s)\<lparr>console := con\<rparr>"
  by (simp add: exportObjects_def objectsLoop_console_update split: option.splits)

lemma objectStep_tile_property:
  "objectStep h (t\<lparr>zIndexProperty := p\<rparr>) ob s = objectStep h t ob s"
  by (simp add: objectStep_def exportCollisions_def exportShapes_def Let_def)

lemma objectsLoop_tile_property:
  "objectsLoop h (t\<lparr>zIndexProperty := p\<rparr>) obs s = objectsLoop h t obs s"
  by (induction obs arbitrary: s) (simp_all add: objectStep_tile_property)

lemma exportObjects_tile_property:
  "exportObjects h (t\<lparr>zIndexProperty := p\<rparr>) s = exportObjects h t s"
  by (simp add: exportObjects_def objectsLoop_tile_property split: option.splits)

subsection \<open>The z-index property\<close>

text \<open>
  Claim C5.  For a tile whose \<open>godot:z_index\<close> property is present: when \<open>parseFloat\<close>
  reads a number from it, processing the tile appends exactly the triple of the tile's
  autotile coordinate (the coordinate after the column check) and the number to the z-index
  map, and prints nothing; when \<open>parseFloat\<close> gives \<open>NaN\<close>, the z-index map is
  unchanged, one warning with the tile's identifier and the raw value is printed, and the
  rest of the tile is processed as for a tile without the property.
\<close>

theorem z_index_entry:
  "zIndexProperty t = Some v \<Longrightarrow>
     (\<forall>z. parseFloat h v = Some z \<longrightarrow>
        zIndexMap (this (tileStep h t s)) =
          zIndexMap (this s)
          @ [(fst (autotileCoordinates (wrapColumn h s)), snd (autotileCoordinates (wrapColumn h s)), z)]
        \<and> console (tileStep h t s) = console s)
   \<and> (parseFloat h v = None \<longrightarrow>
        zIndexMap (this (tileStep h t s)) = zIndexMap (this s)
        \<and> console (tileStep h t s) =
            console s
            @ [Warn (''Skipping export of godot:z_index on tile with id '' @ natToString (tileId t)
                     @ '' because it can not be converted to float. value: '' @ v)]
        \<and> tileStep h t s =
            (tileStep h (t\<lparr>zIndexProperty := None\<rparr>) s)
              \<lparr>console := console s
                 @ [Warn (''Skipping export of godot:z_index on tile with id '' @ natToString (tileId t)
                          @ '' because it can not be converted to float. value: '' @ v)]\<rparr>)"
  by (simp add: tileStep_def exportZIndex_def zIndexWarning_def Let_def exportObjects_frame
      wrapColumn_frame exportObjects_console_update exportObjects_tile_property)

theorem z_index_entry_witness:
  "zIndexProperty demoTile = Some ''1.5'' \<and> parseFloat demoHost ''1.5'' = Some ''1.5''
   \<and> zIndexMap (this (tileStep demoHost demoTile (initialState demoExporter []))) = [(0, 0, ''1.5'')]
   \<and> console (tileStep demoHost demoTile (initialState demoExporter [])) = []
   \<and> zIndexProperty navigationTile = Some ''abc'' \<and> parseFloat demoHost ''abc'' = None
   \<and> zIndexMap (this (tileStep demoHost navigationTile (initialState demoExporter []))) = []
   \<and> console (tileStep demoHost navigationTile (initialState demoExporter [])) =
       [Warn ''Skipping export of godot:z_index on tile with id 1 because it can not be converted to float. value: abc'']"
proof -
  have p1: "zIndexProperty demoTile = Some ''1.5''" by (simp add: demoTile_def)
  have p2: "zIndexProperty navigationTile = Some ''abc''" by (simp add: navigationTile_def)
  have f1: "parseFloat demoHost ''1.5'' = Some ''1.5''" by (simp add: demoHost_def)
  have f2: "parseFloat demoHost ''abc'' = None" by (simp add: demoHost_def)
  have s0: "zIndexMap (this (initialState demoExporter [])) = []"
    "console (initialState demoExporter []) = []"
    "autotileCoordinates (wrapColumn demoHost (initialState demoExporter [])) = (0, 0)"
    by (simp_all add: initialState_def demoExporter_def constructor_def wrapColumn_def
        demoHost_def demoTileset_def Let_def)
  have n: "natToString (tileId navigationTile) = ''1''"
    by (simp add: navigationTile_def natToString.simps)
  note parsed = z_index_entry [OF p1, of demoHost "initialState demoExporter []",
      THEN conjunct1, rule_format, OF f1]
  note skipped = z_index_entry [OF p2, of demoHost "initialState demoExporter []",
      THEN conjunct2, rule_format, OF f2]
  show ?thesis
    using parsed skipped [THEN conjunct1] skipped [THEN conjunct2, THEN conjunct1]
    by (simp add: p1 p2 f1 f2 s0 n)
qed

subsection \<open>Collision shapes and the first shape\<close>

lemma objectStep_collision:
  assumes "objType ob \<noteq> ''navigation''" and "buildsShape h ob"
  shows \<open>shapesResources (this (objectStep h t ob s)) =
           shapesResources (this s)
           @ ''[sub_resource type="ConvexPolygonShape2D" id='' @ natToString (tileId t) @ '']\<newline>''
           @ ''points = PoolVector2Array( '' @ vertexListText h (shapeVertices h ob) @ '' )\<newline>\<newline>''\<close>
    and \<open>shapes (this (objectStep h t ob s)) =
           shapes (this s)
           @ ''{\<newline>"autotile_coord": Vector2( '' @ natToString (fst (autotileCoordinates s)) @ '', ''
           @ natToString (snd (autotileCoordinates s)) @ '' ),\<newline>"one_way": ''
           @ boolToString (objType ob = ''one-way'') @ '',\<newline>"one_way_margin": 1.0,\<newline>"shape": SubResource( ''
           @ natToString (tileId t) @ '' ),\<newline>"shape_transform": Transform2D( 1, 0, 0, 1, 0, 0 )\<newline>}, ''\<close>
  using assms
  by (auto simp add: objectStep_def exportCollisions_def exportShapes_def buildsShape_def
      shapeVertices_def getCollisionShapePolygon_def getCollisionShapeRectangle_def
      getShapesTemplate_def coordinateString_eq vertexListText_def rectangleCorners_def Let_def)

text \<open>
  Claim C10.  The block of every collision shape carries the identifier of the tile that
  owns the object, and so does its shape-assignment entry.  For the objects of one tile
  that all build a collision shape, the blocks appended to the shape resources all have
  \<open>id=\<close> the tile's identifier, and the entries appended to the shapes all refer to
  \<open>SubResource( \<close>that identifier\<open> )\<close>: with two or more such objects the identifier is
  shared.
\<close>

theorem collision_shape_ids:
  \<open>\<forall>ob \<in> set obs. objType ob \<noteq> ''navigation'' \<and> buildsShape h ob \<Longrightarrow>
     shapesResources (this (objectsLoop h t obs s)) =
       shapesResources (this s)
       @ concat (map (\<lambda>ob. ''[sub_resource type="ConvexPolygonShape2D" id='' @ natToString (tileId t) @ '']\<newline>''
                        @ ''points = PoolVector2Array( '' @ vertexListText h (shapeVertices h ob) @ '' )\<newline>\<newline>'') obs)
   \<and> shapes (this (objectsLoop h t obs s)) =
       shapes (this s)
       @ concat (map (\<lambda>ob. ''{\<newline>"autotile_coord": Vector2( '' @ natToString (fst (autotileCoordinates s)) @ '', ''
           @ natToString (snd (autotileCoordinates s)) @ '' ),\<newline>"one_way": ''
           @ boolToString (objType ob = ''one-way'') @ '',\<newline>"one_way_margin": 1.0,\<newline>"shape": SubResource( ''
           @ natToString (tileId t) @ '' ),\<newline>"shape_transform": Transform2D( 1, 0, 0, 1, 0, 0 )\<newline>}, '') obs)\<close>
proof (induction obs arbitrary: s)
  case Nil
  show ?case by simp
next
  case (Cons ob obs)
  have ob: "objType ob \<noteq> ''navigation''" "buildsShape h ob" using Cons.prems by simp_all
  have rest: "\<forall>ob \<in> set obs. objType ob \<noteq> ''navigation'' \<and> buildsShape h ob" using Cons.prems by simp
  show ?case
    using Cons.IH [OF rest, of "objectStep h t ob s"]
    by (simp add: objectStep_collision [OF ob] objectStep_frame)
qed

theorem collision_shape_ids_witness:
  \<open>objType polygonObject \<noteq> ''navigation'' \<and> buildsShape demoHost polygonObject
   \<and> objType rectangleObject \<noteq> ''navigation'' \<and> buildsShape demoHost rectangleObject
   \<and> shapesResources (this (objectsLoop demoHost demoTile [polygonObject, rectangleObject] (initialState demoExporter []))) =
       ''[sub_resource type="ConvexPolygonShape2D" id=7]\<newline>points = PoolVector2Array( 5, 5, 15, 5, 15, 15, 5, 15 )\<newline>\<newline>''
       @ ''[sub_resource type="ConvexPolygonShape2D" id=7]\<newline>points = PoolVector2Array( 2, 3, 6, 3, 6, 9, 2, 9 )\<newline>\<newline>''
   \<and> shapes (this (objectsLoop demoHost demoTile [polygonObject, rectangleObject] (initialState demoExporter []))) =
       ''{\<newline>"autotile_coord": Vector2( 0, 0 ),\<newline>"one_way": false,\<newline>"one_way_margin": 1.0,\<newline>"shape": SubResource( 7 ),\<newline>"shape_transform": Transform2D( 1, 0, 0, 1, 0, 0 )\<newline>}, ''
       @ ''{\<newline>"autotile_coord": Vector2( 0, 0 ),\<newline>"one_way": true,\<newline>"one_way_margin": 1.0,\<newline>"shape": SubResource( 7 ),\<newline>"shape_transform": Transform2D( 1, 0, 0, 1, 0, 0 )\<newline>}, ''\<close>
proof -
  have h: "\<forall>ob \<in> set [polygonObject, rectangleObject]. objType ob \<noteq> ''navigation'' \<and> buildsShape demoHost ob"
    by (simp add: buildsShape_def polygonObject_def rectangleObject_def demoHost_numbers)
  have v1: "vertexListText demoHost (shapeVertices demoHost polygonObject) = ''5, 5, 15, 5, 15, 15, 5, 15''"
    by (simp add: shapeVertices_def absoluteVertices_def polygonObject_def vertexListText_def
        demoHost_numbers numToString_def natToString.simps)
  have v2: "vertexListText demoHost (shapeVertices demoHost rectangleObject) = ''2, 3, 6, 3, 6, 9, 2, 9''"
    by (simp add: shapeVertices_def rectangleCorners_def rectangleObject_def vertexListText_def
        demoHost_numbers numToString_def natToString.simps)
  have n: "natToString 7 = ''7''" "natToString 0 = ''0''" by (simp_all add: natToString.simps)
  have s0: "shapesResources (this (initialState demoExporter [])) = ''''"
    "shapes (this (initialState demoExporter [])) = ''''"
    "autotileCoordinates (initialState demoExporter []) = (0, 0)"
    by (simp_all add: initialState_def demoExporter_def constructor_def)
  have ty: "objType polygonObject = ''''" "objType rectangleObject = ''one-way''"
    by (simp_all add: polygonObject_def rectangleObject_def)
  have id7: "tileId demoTile = 7" by (simp add: demoTile_def)
  show ?thesis
    using collision_shape_ids [OF h, where t = demoTile and s = "initialState demoExporter []"]
    by (simp add: h v1 v2 n s0 ty id7 boolToString_def)
qed

lemma exportShapes_firstShapeID:
  "firstShapeID e \<noteq> '''' \<Longrightarrow> firstShapeID (exportShapes t c b e) = firstShapeID e"
  by (simp add: exportShapes_def)

lemma objectStep_firstShapeID:
  "firstShapeID (this s) \<noteq> '''' \<Longrightarrow> firstShapeID (this (objectStep h t ob s)) = firstShapeID (this s)"
  by (simp add: objectStep_def exportCollisions_def exportNavigations_def exportNavigationShape_def
      exportShapes_firstShapeID Let_def)

lemma objectsLoop_firstShapeID:
  "firstShapeID (this s) \<noteq> '''' \<Longrightarrow> firstShapeID (this (objectsLoop h t obs s)) = firstShapeID (this s)"
  by (induction obs arbitrary: s) (simp_all add: objectStep_firstShapeID)

lemma tileStep_firstShapeID:
  "firstShapeID (this s) \<noteq> '''' \<Longrightarrow> firstShapeID (this (tileStep h t s)) = firstShapeID (this s)"
  by (simp add: tileStep_def exportObjects_def exportZIndex_def wrapColumn_def Let_def
      objectsLoop_firstShapeID split: option.splits)

lemma tilesLoop_firstShapeID:
  "firstShapeID (this s) \<noteq> '''' \<Longrightarrow> firstShapeID (this (tilesLoop h ts s)) = firstShapeID (this s)"
  by (induction ts arbitrary: s) (simp_all add: tileStep_firstShapeID)

lemma firstShapeID_never_set:
  "firstShapeID (fst (iterateTiles h (constructor h ts fname) con)) = ''0''"
  by (simp add: iterateTiles_def Let_def tilesLoop_firstShapeID initialState_def constructor_def)

text \<open>
  Claim C1.  The export of the demo tileset, whose third tile (identifier 7) owns two
  objects that build collision shapes: the rendered document has \<open>0/shape = 0\<close>, not
  \<open>0/shape = SubResource( 7 )\<close>, since \<open>exportShapes\<close> replaces \<open>firstShapeID\<close> only
  when it is the empty string and the constructor sets it to \<open>"0"\<close>.
\<close>

theorem first_shape_reference_lost:
  \<open>files (formatWrite demoHost demoTileset ''demo.tres'' \<lparr>printed = [], files = Map.empty\<rparr>) ''demo.tres''
     = Some (
''[gd_resource type="TileSet" load_steps=3 format=2]\<newline>''
     @ ''\<newline>''
     @ ''[ext_resource path="res://demo.png" type="Texture" id=1]\<newline>''
     @ ''\<newline>''
     @ ''[sub_resource type="NavigationPolygon" id=8]\<newline>''
     @ ''vertices = PoolVector2Array( 5, 5, 15, 5, 15, 15, 5, 15 )\<newline>''
     @ ''polygons = [ PoolIntArray ( 0, 1, 2, 3 ) ]\<newline>''
     @ ''\<newline>''
     @ ''[sub_resource type="NavigationPolygon" id=10]\<newline>''
     @ ''vertices = PoolVector2Array( 2, 3, 6, 3, 6, 9, 2, 9 )\<newline>''
     @ ''polygons = [ PoolIntArray( 0, 1, 2, 3 ) ]\<newline>''
     @ ''\<newline>''
     @ ''[sub_resource type="ConvexPolygonShape2D" id=7]\<newline>''
     @ ''points = PoolVector2Array( 5, 5, 15, 5, 15, 15, 5, 15 )\<newline>''
     @ ''\<newline>''
     @ ''[sub_resource type="ConvexPolygonShape2D" id=7]\<newline>''
     @ ''points = PoolVector2Array( 2, 3, 6, 3, 6, 9, 2, 9 )\<newline>''
     @ ''\<newline>''
     @ ''[resource]\<newline>''
     @ ''0/name = "demo 0"\<newline>''
     @ ''0/texture = ExtResource( 1 )\<newline>''
     @ ''0/tex_offset = Vector2( 0, 0 )\<newline>''
     @ ''0/modulate = Color( 1, 1, 1, 1 )\<newline>''
     @ ''0/region = Rect2( 0, 0, 32, 32 )\<newline>''
     @ ''0/tile_mode = 2\<newline>''
     @ ''0/autotile/icon_coordinate = Vector2( 0, 0 )\<newline>''
     @ ''0/autotile/tile_size = Vector2( 16, 16 )\<newline>''
     @ ''0/autotile/spacing = 0\<newline>''
     @ ''0/autotile/occluder_map = [  ]\<newline>''
     @ ''0/autotile/navpoly_map = [ Vector2( 1, 0 ), SubResource( 8 ), Vector2( 1, 0 ), SubResource( 10 ) ]\<newline>''
     @ ''0/autotile/priority_map = [  ]\<newline>''
     @ ''0/autotile/z_index_map = [ Vector3( 0, 1, 1.5 ) ]\<newline>''
     @ ''0/occluder_offset = Vector2( 0, 0 )\<newline>''
     @ ''0/navigation_offset = Vector2( 0, 0 )\<newline>''
     @ ''0/shape_offset = Vector2( 0, 0 )\<newline>''
     @ ''0/shape_transform = Transform2D( 1, 0, 0, 1, 0, 0 )\<newline>''
     @ ''0/shape = 0\<newline>''
     @ ''0/shape_one_way = false\<newline>''
     @ ''0/shape_one_way_margin = 1.0\<newline>''
     @ ''0/shapes = [ {\<newline>''
     @ ''"autotile_coord": Vector2( 0, 1 ),\<newline>''
     @ ''"one_way": false,\<newline>''
     @ ''"one_way_margin": 1.0,\<newline>''
     @ ''"shape": SubResource( 7 ),\<newline>''
     @ ''"shape_transform": Transform2D( 1, 0, 0, 1, 0, 0 )\<newline>''
     @ ''}, {\<newline>''
     @ ''"autotile_coord": Vector2( 0, 1 ),\<newline>''
     @ ''"one_way": true,\<newline>''
     @ ''"one_way_margin": 1.0,\<newline>''
     @ ''"shape": SubResource( 7 ),\<newline>''
     @ ''"shape_transform": Transform2D( 1, 0, 0, 1, 0, 0 )\<newline>''
     @ ''} ]\<newline>''
     @ ''0/z_index = 0\<newline>'')\<close>
  by code_simp

subsection \<open>Autotile coordinates\<close>











subsection \<open>Navigation identifiers\<close>

lemma navpolyText_append: "navpolyText (a @ b) = navpolyText a @ navpolyText b"
  by (simp add: navpolyText_def)

lemma navInvariant_extend:
  assumes "navInvariant seed ents s"
    and "minNavId s' = minNavId s + 1"
    and "navpolyMap (this s') = navpolyMap (this s) @ navpolyText [(c, minNavId s + 1)]"
  shows "navInvariant seed (ents @ [(c, minNavId s + 1)]) s'"
  using assms
  by (auto simp add: navInvariant_def navpolyText_append sorted_wrt_append)

lemma navInvariant_keep:
  assumes "navInvariant seed ents s"
    and "minNavId s \<le> minNavId s'"
    and "navpolyMap (this s') = navpolyMap (this s)"
  shows "navInvariant seed ents s'"
  using assms by (auto simp add: navInvariant_def)

lemma objectStep_navInvariant:
  assumes "navInvariant seed ents s"
  shows "\<exists>ents'. navInvariant seed ents' (objectStep h t ob s)"
proof (cases "objType ob = ''navigation''")
  case False
  have "navInvariant seed ents (objectStep h t ob s)"
    using assms
    by (rule navInvariant_keep)
      (simp_all add: False objectStep_def exportCollisions_def exportShapes_def Let_def)
  then show ?thesis ..
next
  case nav: True
  show ?thesis
  proof (cases "buildsShape h ob")
    case True
    have "navInvariant seed (ents @ [(autotileCoordinates s, minNavId s + 1)]) (objectStep h t ob s)"
      using assms
    proof (rule navInvariant_extend)
      show "minNavId (objectStep h t ob s) = minNavId s + 1"
        by (simp add: nav objectStep_def Let_def)
      show "navpolyMap (this (objectStep h t ob s)) =
              navpolyMap (this s) @ navpolyText [(autotileCoordinates s, minNavId s + 1)]"
        using True
        by (auto simp add: nav objectStep_def exportNavigations_def exportNavigationShape_def
            buildsShape_def navpolyText_def Let_def)
    qed
    then show ?thesis ..
  next
    case False
    have "navInvariant seed ents (objectStep h t ob s)"
      using assms
    proof (rule navInvariant_keep)
      show "minNavId s \<le> minNavId (objectStep h t ob s)"
        by (simp add: nav objectStep_def Let_def)
      show "navpolyMap (this (objectStep h t ob s)) = navpolyMap (this s)"
        using False
        by (auto simp add: nav objectStep_def exportNavigations_def buildsShape_def Let_def)
    qed
    then show ?thesis ..
  qed
qed

lemma objectsLoop_navInvariant:
  "navInvariant seed ents s \<Longrightarrow> \<exists>ents'. navInvariant seed ents' (objectsLoop h t obs s)"
proof (induction obs arbitrary: s ents)
  case Nil
  then show ?case by auto
next
  case (Cons ob obs)
  from objectStep_navInvariant [OF Cons.prems]
  obtain ents1 where "navInvariant seed ents1 (objectStep h t ob s)" ..
  from Cons.IH [OF this] show ?case by simp
qed

lemma tileStep_navInvariant:
  assumes "navInvariant seed ents s"
  shows "\<exists>ents'. navInvariant seed ents' (tileStep h t s)"
proof -
  have "navInvariant seed ents (exportZIndex h t (wrapColumn h s))"
    using assms
    by (rule navInvariant_keep)
      (simp_all add: exportZIndex_def wrapColumn_def Let_def split: option.splits)
  then have "\<exists>ents'. navInvariant seed ents' (exportObjects h t (exportZIndex h t (wrapColumn h s)))"
    by (auto simp add: exportObjects_def objectsLoop_navInvariant split: option.splits)
  then obtain ents1
    where inv: "navInvariant seed ents1 (exportObjects h t (exportZIndex h t (wrapColumn h s)))" ..
  have "navInvariant seed ents1 (tileStep h t s)"
    using inv by (rule navInvariant_keep) (simp_all add: tileStep_def Let_def)
  then show ?thesis ..
qed

lemma tilesLoop_navInvariant:
  "navInvariant seed ents s \<Longrightarrow> \<exists>ents'. navInvariant seed ents' (tilesLoop h ts s)"
proof (induction ts arbitrary: s ents)
  case Nil
  then show ?case by auto
next
  case (Cons t ts)
  from tileStep_navInvariant [OF Cons.prems]
  obtain ents1 where "navInvariant seed ents1 (tileStep h t s)" ..
  from Cons.IH [OF this] show ?case by simp
qed

lemma foldl_max_Max:
  "foldl (\<lambda>ident t. max ident (tileId t)) a ts = Max (insert a (tileId ` set ts))"
proof (induction ts arbitrary: a)
  case Nil
  show ?case by simp
next
  case (Cons t ts)
  have "Max (insert (max a (tileId t)) (tileId ` set ts)) = Max (insert a (insert (tileId t) (tileId ` set ts)))"
    by (cases "tileId ` set ts = {}") (simp_all add: max.assoc)
  with Cons.IH [of "max a (tileId t)"] show ?case by simp
qed

lemma initialNavId_Max:
  "initialNavId ts = (if ts = [] then 0 else Max (tileId ` set ts))"
proof (cases ts)
  case Nil
  then show ?thesis by (simp add: initialNavId_def)
next
  case (Cons t ts')
  then have "tileId ` set ts \<noteq> {}" by simp
  then have "Max (insert 0 (tileId ` set ts)) = Max (tileId ` set ts)" by simp
  with Cons show ?thesis by (simp add: initialNavId_def foldl_max_Max del: foldl_Cons)
qed

lemma initialNavId_upper: "t \<in> set ts \<Longrightarrow> tileId t \<le> initialNavId ts"
  by (simp add: initialNavId_def foldl_max_Max)

text \<open>
  Claim C4.  The counter starts at the largest tile identifier, or 0 without tiles; the
  navigation map of an export is the text of a list of entries whose identifiers, in the
  order they were appended, increase strictly and each exceed every tile identifier; and
  for every object of type \<open>navigation\<close> the counter is incremented first and the new
  value is the identifier passed to \<open>exportNavigations\<close>.
\<close>

theorem navigation_ids_increasing:
  "initialNavId (tiles ts) = (if tiles ts = [] then 0 else Max (tileId ` set (tiles ts)))
   \<and> (\<exists>ents. navpolyMap (fst (iterateTiles h (constructor h ts fname) con)) = navpolyText ents
          \<and> sorted_wrt (<) (map snd ents)
          \<and> (\<forall>i \<in> set (map snd ents). \<forall>t \<in> set (tiles ts). tileId t < i))
   \<and> (objType ob = ''navigation'' \<longrightarrow>
        minNavId (objectStep h t ob s) = minNavId s + 1
        \<and> this (objectStep h t ob s) =
            exportNavigations h ob (minNavId s + 1) (autotileCoordinates s) (this s))"
proof -
  let ?s0 = "initialState (constructor h ts fname) con"
  have "navInvariant (initialNavId (tiles ts)) [] ?s0"
    by (simp add: navInvariant_def initialState_def constructor_def navpolyText_def)
  from tilesLoop_navInvariant [OF this, of h "tiles ts"]
  obtain ents where inv: "navInvariant (initialNavId (tiles ts)) ents (tilesLoop h (tiles ts) ?s0)" ..
  have tl: "tiles (tileset (constructor h ts fname)) = tiles ts" by (simp add: constructor_def)
  have "navpolyMap (fst (iterateTiles h (constructor h ts fname) con)) = navpolyText ents"
    using inv by (simp add: iterateTiles_def Let_def navInvariant_def tl)
  moreover have "sorted_wrt (<) (map snd ents)" using inv by (simp add: navInvariant_def)
  moreover have "\<forall>i \<in> set (map snd ents). \<forall>t \<in> set (tiles ts). tileId t < i"
  proof (intro ballI)
    fix i t assume "i \<in> set (map snd ents)" and "t \<in> set (tiles ts)"
    then have "initialNavId (tiles ts) < i" and "tileId t \<le> initialNavId (tiles ts)"
      using inv initialNavId_upper by (auto simp add: navInvariant_def)
    then show "tileId t < i" by simp
  qed
  ultimately have b: "\<exists>ents. navpolyMap (fst (iterateTiles h (constructor h ts fname) con)) = navpolyText ents
          \<and> sorted_wrt (<) (map snd ents)
          \<and> (\<forall>i \<in> set (map snd ents). \<forall>t \<in> set (tiles ts). tileId t < i)"
    by blast
  have c: "objType ob = ''navigation'' \<longrightarrow>
        minNavId (objectStep h t ob s) = minNavId s + 1
        \<and> this (objectStep h t ob s) =
            exportNavigations h ob (minNavId s + 1) (autotileCoordinates s) (this s)"
    by (simp add: objectStep_def Let_def)
  from initialNavId_Max [of "tiles ts"] b c show ?thesis by blast
qed

theorem navigation_ids_increasing_witness:
  "initialNavId (tiles demoTileset) = 7
   \<and> navpolyMap (fst (iterateTiles demoHost (constructor demoHost demoTileset ''demo.tres'') [])) =
       navpolyText [((1, 0), 8), ((1, 0), 10)]
   \<and> sorted_wrt (<) (map snd [((1, 0), 8), ((1::nat, 0::nat), 10::nat)])
   \<and> objType (emptyObject\<lparr>objType := ''navigation''\<rparr>) = ''navigation''
   \<and> minNavId (objectStep demoHost navigationTile (emptyObject\<lparr>objType := ''navigation''\<rparr>)
        (initialState demoExporter [])) = 8"
proof -
  note inst = navigation_ids_increasing [where ts = demoTileset and h = demoHost
      and fname = "''demo.tres''" and con = "[]" and ob =
      "emptyObject\<lparr>objType := ''navigation''\<rparr>" and t = navigationTile
      and s = "initialState demoExporter []"]
  have ids: "tileId ` set (tiles demoTileset) = {0, 1, 7}"
    by (simp add: demoTileset_def plainTile_def navigationTile_def demoTile_def)
  have seed: "initialNavId (tiles demoTileset) = 7"
    using inst [THEN conjunct1] by (simp add: ids) (simp add: demoTileset_def)
  have m: "minNavId (initialState demoExporter []) = 7"
    using seed by (simp add: initialState_def demoExporter_def constructor_def)
  have step: "minNavId (objectStep demoHost navigationTile (emptyObject\<lparr>objType := ''navigation''\<rparr>)
        (initialState demoExporter [])) = 8"
    using inst [THEN conjunct2, THEN conjunct2] by (simp add: m)
  have n: "navpolyMap (fst (iterateTiles demoHost (constructor demoHost demoTileset ''demo.tres'') [])) =
       navpolyText [((1, 0), 8), ((1, 0), 10)]"
    by code_simp
  from seed step n show ?thesis by simp
qed

subsection \<open>Trailing separators\<close>

lemma endsWithSeparator_Nil: "\<not> endsWithSeparator []"
  by (simp add: endsWithSeparator_def)

lemma endsWithSeparator_last:
  assumes "x \<noteq> []" and "\<not> isSpace (last x)" and "last x \<noteq> CHR '',''"
  shows "\<not> endsWithSeparator (p @ x)"
proof -
  from assms(1) obtain y c where x: "x = y @ [c]" by (cases x rule: rev_cases) auto
  with assms(2,3) show ?thesis by (simp add: endsWithSeparator_def)
qed

lemma digit_not_separator:
  assumes "c \<in> set ''0123456789+-.eInfinityNaN''"
  shows "\<not> isSpace c" and "c \<noteq> CHR '',''"
  using assms by (auto simp add: isSpace_def)

lemma join_last: "xs \<noteq> [] \<Longrightarrow> \<exists>p. join sep xs = p @ last xs"
proof (induction sep xs rule: join.induct)
  case (1 sep)
  then show ?case by simp
next
  case (2 sep s)
  show ?case by (rule exI [of _ "[]"]) simp
next
  case (3 sep s t ts)
  then obtain p where "join sep (t # ts) = p @ last (t # ts)" by auto
  then have "join sep (s # t # ts) = (s @ sep @ p) @ last (s # t # ts)" by simp
  then show ?case by blast
qed

lemma vertexListText_no_separator: "\<not> endsWithSeparator (vertexListText h vs)"
proof (cases vs)
  case Nil
  then show ?thesis by (simp add: vertexListText_def endsWithSeparator_Nil)
next
  case (Cons v vs')
  let ?flat = "concat (map (\<lambda>(a, b). [textOf (numberToString h a), textOf (numberToString h b)]) vs)"
  have ne: "?flat \<noteq> []" using Cons by (simp split: prod.splits)
  have "last ?flat \<in> set ?flat" using ne by (rule last_in_set)
  then obtain x where l: "last ?flat = textOf x" by (auto split: prod.splits)
  from join_last [OF ne, of "'', ''"] obtain p where j: "join '', '' ?flat = p @ textOf x"
    by (auto simp add: l)
  have "\<not> endsWithSeparator (p @ textOf x)"
    using textOf_nonempty digit_not_separator [OF textOf_last]
    by (rule endsWithSeparator_last)
  then show ?thesis by (simp add: vertexListText_def j)
qed

lemma replaceTrailingComma_entries:
  assumes "entriesText raw"
  shows "\<not> endsWithSeparator (replaceTrailingComma raw)"
proof (cases "raw = []")
  case True
  then show ?thesis by (simp add: replaceTrailingComma_Nil endsWithSeparator_Nil)
next
  case False
  with assms obtain p where raw: "raw = p @ ''}, ''" by blast
  have "replaceTrailingComma raw = p @ ''}''"
    using replaceTrailingComma_sep [of "p @ ''}''"] by (simp add: raw)
  moreover have "\<not> endsWithSeparator (p @ ''}'')"
    by (rule endsWithSeparator_last) (simp_all add: isSpace_def)
  ultimately show ?thesis by simp
qed

lemma getShapesTemplate_end: "\<exists>p. getShapesTemplate c b i = p @ ''}, ''"
  unfolding getShapesTemplate_def Let_def
  by (metis append.assoc)

lemma exportShapes_entries: "entriesText (shapes (exportShapes t c b e))"
proof -
  obtain p where "getShapesTemplate c b (tileId t) = p @ ''}, ''"
    using getShapesTemplate_end by blast
  then have "shapes (exportShapes t c b e) = (shapes e @ p) @ ''}, ''"
    by (simp add: exportShapes_def Let_def)
  then show ?thesis by blast
qed

lemma exportCollisions_entries:
  assumes "entriesText (shapes e)"
  shows "entriesText (shapes (exportCollisions h ob t c e))"
proof -
  consider (polygon) "length (objPolygon ob) > 0"
    | (rectangle) "\<not> length (objPolygon ob) > 0" "numPositive h (objWidth ob) \<and> numPositive h (objHeight ob)"
    | (neither) "\<not> length (objPolygon ob) > 0" "\<not> (numPositive h (objWidth ob) \<and> numPositive h (objHeight ob))"
    by blast
  then show ?thesis
  proof cases
    case polygon
    then have "exportCollisions h ob t c e =
        exportShapes t c (objType ob = ''one-way'')
          (e\<lparr>shapesResources := shapesResources e @ getCollisionShapePolygon h (tileId t) ob\<rparr>)"
      by (simp add: exportCollisions_def Let_def)
    then show ?thesis using exportShapes_entries by metis
  next
    case rectangle
    then have "exportCollisions h ob t c e =
        exportShapes t c (objType ob = ''one-way'')
          (e\<lparr>shapesResources := shapesResources e @ getCollisionShapeRectangle h (tileId t) ob\<rparr>)"
      by (simp add: exportCollisions_def Let_def)
    then show ?thesis using exportShapes_entries by metis
  next
    case neither
    then have "exportCollisions h ob t c e = e" by (auto simp add: exportCollisions_def Let_def)
    with assms show ?thesis by simp
  qed
qed

lemma objectStep_entries:
  assumes "entriesText (shapes (this s))"
  shows "entriesText (shapes (this (objectStep h t ob s)))"
proof (cases "objType ob = ''navigation''")
  case True
  then have "shapes (this (objectStep h t ob s)) = shapes (this s)"
    by (simp add: objectStep_def exportNavigations_def exportNavigationShape_def Let_def)
  with assms show ?thesis by simp
next
  case False
  then have "this (objectStep h t ob s) = exportCollisions h ob t (autotileCoordinates s) (this s)"
    by (simp add: objectStep_def)
  with exportCollisions_entries [OF assms] show ?thesis by simp
qed

lemma objectsLoop_entries:
  "entriesText (shapes (this s)) \<Longrightarrow> entriesText (shapes (this (objectsLoop h t obs s)))"
proof (induction obs arbitrary: s)
  case Nil
  then show ?case by simp
next
  case (Cons ob obs)
  from Cons.IH [OF objectStep_entries [OF Cons.prems]] show ?case by simp
qed

lemma exportZIndex_shapes: "shapes (this (exportZIndex h t s)) = shapes (this s)"
  by (simp add: exportZIndex_def split: option.splits)

lemma tileStep_entries:
  assumes "entriesText (shapes (this s))"
  shows "entriesText (shapes (this (tileStep h t s)))"
proof -
  have start: "entriesText (shapes (this (exportZIndex h t (wrapColumn h s))))"
    using assms by (simp add: exportZIndex_shapes wrapColumn_frame)
  show ?thesis
  proof (cases "objectGroup t")
    case None
    with start show ?thesis by (simp add: tileStep_def exportObjects_def Let_def)
  next
    case (Some obs)
    with start objectsLoop_entries [OF start, where t = t and obs = obs] show ?thesis
      by (simp add: tileStep_def exportObjects_def Let_def)
  qed
qed

lemma tilesLoop_entries:
  "entriesText (shapes (this s)) \<Longrightarrow> entriesText (shapes (this (tilesLoop h ts s)))"
proof (induction ts arbitrary: s)
  case Nil
  then show ?case by simp
next
  case (Cons t ts)
  from Cons.IH [OF tileStep_entries [OF Cons.prems]] show ?case by simp
qed

lemma ex_prefix_append: "\<exists>pre. r = pre @ t \<Longrightarrow> \<exists>pre. x @ r = pre @ t"
  by (metis append.assoc)

lemma ex_prefix_refl: "\<exists>pre. t = pre @ t"
  by (rule exI [of _ "[]"]) simp

lemma getTilesetTemplate_shapes:
  \<open>\<exists>pre. getTilesetTemplate h e = pre @ ''0/shapes = [ '' @ shapes e @ '' ]\<newline>'' @ ''0/z_index = 0\<newline>''\<close>
  unfolding getTilesetTemplate_def
  by (intro ex_prefix_append ex_prefix_refl)

text \<open>
  Claim C8.  The shapes text of an export does not end with a list separator, and it is
  what the document has between \<open>0/shapes = [\<close> and the closing bracket; the
  coordinate list of a polygon block and the corner list of a rectangle block, which the
  blocks have between \<open>PoolVector2Array(\<close> and the closing parenthesis, do not end with
  one either.
\<close>

theorem trailing_separators_stripped:
  \<open>\<not> endsWithSeparator (shapes (fst (iterateTiles h (constructor h ts fname) con)))
   \<and> (\<exists>pre. getTilesetTemplate h e = pre @ ''0/shapes = [ '' @ shapes e @ '' ]\<newline>'' @ ''0/z_index = 0\<newline>'')
   \<and> \<not> endsWithSeparator (coordinateString h ob)
   \<and> getCollisionShapePolygon h i ob =
       ''[sub_resource type="ConvexPolygonShape2D" id='' @ natToString i @ '']\<newline>''
       @ ''points = PoolVector2Array( '' @ coordinateString h ob @ '' )\<newline>\<newline>''
   \<and> getNavigationShapePolygon h i ob =
       ''[sub_resource type="NavigationPolygon" id='' @ natToString i @ '']\<newline>''
       @ ''vertices = PoolVector2Array( '' @ coordinateString h ob @ '' )\<newline>''
       @ ''polygons = [ PoolIntArray ( ''
       @ join '', '' (map natToString [0 ..< length (objPolygon ob)]) @ '' ) ]\<newline>\<newline>''
   \<and> \<not> endsWithSeparator (vertexListText h (rectangleCorners h ob))
   \<and> getCollisionShapeRectangle h i ob =
       ''[sub_resource type="ConvexPolygonShape2D" id='' @ natToString i @ '']\<newline>''
       @ ''points = PoolVector2Array( '' @ vertexListText h (rectangleCorners h ob) @ '' )\<newline>\<newline>''
   \<and> getNavigationShapeRectangle h i ob =
       ''[sub_resource type="NavigationPolygon" id='' @ natToString i @ '']\<newline>''
       @ ''vertices = PoolVector2Array( '' @ vertexListText h (rectangleCorners h ob) @ '' )\<newline>''
       @ ''polygons = [ PoolIntArray( 0, 1, 2, 3 ) ]\<newline>\<newline>''\<close>
proof -
  let ?s0 = "initialState (constructor h ts fname) con"
  have "entriesText (shapes (this ?s0))" by (simp add: initialState_def constructor_def)
  then have "entriesText (shapes (this (tilesLoop h (tiles ts) ?s0)))" by (rule tilesLoop_entries)
  then have "\<not> endsWithSeparator (replaceTrailingComma (shapes (this (tilesLoop h (tiles ts) ?s0))))"
    by (rule replaceTrailingComma_entries)
  then have a: "\<not> endsWithSeparator (shapes (fst (iterateTiles h (constructor h ts fname) con)))"
    by (simp add: iterateTiles_def Let_def constructor_def)
  have b: "\<not> endsWithSeparator (coordinateString h ob)"
    by (simp add: coordinateString_eq vertexListText_no_separator)
  have c: \<open>getCollisionShapePolygon h i ob =
       ''[sub_resource type="ConvexPolygonShape2D" id='' @ natToString i @ '']\<newline>''
       @ ''points = PoolVector2Array( '' @ coordinateString h ob @ '' )\<newline>\<newline>''\<close>
    by (simp add: getCollisionShapePolygon_def)
  have d: \<open>getNavigationShapePolygon h i ob =
       ''[sub_resource type="NavigationPolygon" id='' @ natToString i @ '']\<newline>''
       @ ''vertices = PoolVector2Array( '' @ coordinateString h ob @ '' )\<newline>''
       @ ''polygons = [ PoolIntArray ( ''
       @ join '', '' (map natToString [0 ..< length (objPolygon ob)]) @ '' ) ]\<newline>\<newline>''\<close>
    by (simp add: getNavigationShapePolygon_def)
  have f: \<open>getCollisionShapeRectangle h i ob =
       ''[sub_resource type="ConvexPolygonShape2D" id='' @ natToString i @ '']\<newline>''
       @ ''points = PoolVector2Array( '' @ vertexListText h (rectangleCorners h ob) @ '' )\<newline>\<newline>''\<close>
    by (simp add: getCollisionShapeRectangle_def vertexListText_def rectangleCorners_def Let_def)
  have g: \<open>getNavigationShapeRectangle h i ob =
       ''[sub_resource type="NavigationPolygon" id='' @ natToString i @ '']\<newline>''
       @ ''vertices = PoolVector2Array( '' @ vertexListText h (rectangleCorners h ob) @ '' )\<newline>''
       @ ''polygons = [ PoolIntArray( 0, 1, 2, 3 ) ]\<newline>\<newline>''\<close>
    by (simp add: getNavigationShapeRectangle_def vertexListText_def rectangleCorners_def Let_def)
  from a getTilesetTemplate_shapes [of h e] b c d vertexListText_no_separator [where h = h and vs = "rectangleCorners h ob"] f g
  show ?thesis by (intro conjI)
qed

text \<open>Before the replacement the accumulated shapes text of the demo tileset does end with one.\<close>

lemma separator_before_replace:
  "endsWithSeparator (shapes (this (tilesLoop demoHost (tiles demoTileset) (initialState demoExporter []))))"
  by code_simp

subsection \<open>Two exports of one tileset\<close>

lemma forgetRun_objectStep: "forgetRun (objectStep h t ob s) = forgetRun (objectStep h t ob (forgetRun s))"
  by (simp add: forgetRun_def objectStep_def exportCollisions_def exportNavigations_def
      exportNavigationShape_def exportShapes_def Let_def)

lemma forgetRun_objectsLoop: "forgetRun (objectsLoop h t obs s) = forgetRun (objectsLoop h t obs (forgetRun s))"
proof (induction obs arbitrary: s)
  case Nil
  show ?case by (simp add: forgetRun_def)
next
  case (Cons ob obs)
  have "forgetRun (objectsLoop h t (ob # obs) s) = forgetRun (objectsLoop h t obs (forgetRun (objectStep h t ob s)))"
    using Cons.IH [of "objectStep h t ob s"] by simp
  also have "\<dots> = forgetRun (objectsLoop h t obs (forgetRun (objectStep h t ob (forgetRun s))))"
    by (simp only: forgetRun_objectStep [symmetric])
  also have "\<dots> = forgetRun (objectsLoop h t (ob # obs) (forgetRun s))"
    using Cons.IH [of "objectStep h t ob (forgetRun s)"] by simp
  finally show ?case .
qed

lemma forgetRun_tileStep:
  fixes s :: "('n, 'z) iterState"
  shows "forgetRun (tileStep h t s) = forgetRun (tileStep h t (forgetRun s))"
proof -
  have w: "forgetRun (wrapColumn h s) = wrapColumn h (forgetRun s)"
    by (simp add: forgetRun_def wrapColumn_def Let_def)
  have z: "forgetRun (exportZIndex h t u) = forgetRun (exportZIndex h t (forgetRun u))" for u :: "('n, 'z) iterState"
    by (simp add: forgetRun_def exportZIndex_def split: option.splits)
  have o: "forgetRun (exportObjects h t u) = forgetRun (exportObjects h t (forgetRun u))" for u :: "('n, 'z) iterState"
    using forgetRun_objectsLoop [where t = t and s = u]
    by (simp add: exportObjects_def split: option.splits) (simp add: forgetRun_def)
  have a: "forgetRun (u\<lparr>autotileCoordinates := (fst (autotileCoordinates u) + 1, snd (autotileCoordinates u))\<rparr>)
           = (forgetRun u)\<lparr>autotileCoordinates := (fst (autotileCoordinates (forgetRun u)) + 1, snd (autotileCoordinates (forgetRun u)))\<rparr>" for u :: "('n, 'z) iterState"
    by (simp add: forgetRun_def)
  have "forgetRun (exportObjects h t (exportZIndex h t (wrapColumn h s)))
        = forgetRun (exportObjects h t (forgetRun (exportZIndex h t (wrapColumn h s))))"
    by (rule o)
  also have "\<dots> = forgetRun (exportObjects h t (forgetRun (exportZIndex h t (forgetRun (wrapColumn h s)))))"
    by (simp only: z [symmetric])
  also have "\<dots> = forgetRun (exportObjects h t (forgetRun (exportZIndex h t (wrapColumn h (forgetRun s)))))"
    by (simp only: w)
  also have "\<dots> = forgetRun (exportObjects h t (exportZIndex h t (wrapColumn h (forgetRun s))))"
    by (simp only: o [symmetric])
  finally have body: "forgetRun (exportObjects h t (exportZIndex h t (wrapColumn h s)))
        = forgetRun (exportObjects h t (exportZIndex h t (wrapColumn h (forgetRun s))))" .
  show ?thesis
    by (simp only: tileStep_def Let_def a body)
qed

lemma forgetRun_tilesLoop: "forgetRun (tilesLoop h ts s) = forgetRun (tilesLoop h ts (forgetRun s))"
proof (induction ts arbitrary: s)
  case Nil
  show ?case by (simp add: forgetRun_def)
next
  case (Cons t ts)
  have "forgetRun (tilesLoop h (t # ts) s) = forgetRun (tilesLoop h ts (forgetRun (tileStep h t s)))"
    using Cons.IH [of "tileStep h t s"] by simp
  also have "\<dots> = forgetRun (tilesLoop h ts (forgetRun (tileStep h t (forgetRun s))))"
    by (simp only: forgetRun_tileStep [symmetric])
  also have "\<dots> = forgetRun (tilesLoop h (t # ts) (forgetRun s))"
    using Cons.IH [of "tileStep h t (forgetRun s)"] by simp
  finally show ?case .
qed

lemma render_independent:
  fixes h :: "('n, 'z) host"
  shows "getTilesetTemplate h (fst (iterateTiles h (constructor h ts fname) con)) = renderTileset h ts"
proof -
  let ?run = "initialState (constructor h ts fname) con"
  let ?fresh = "initialState (constructor h ts '''') []"
  have st: "forgetRun ?run = forgetRun ?fresh"
    by (simp add: forgetRun_def initialState_def constructor_def)
  have tl: "tiles (tileset (constructor h ts f)) = tiles ts" for f by (simp add: constructor_def)
  have "forgetRun (tilesLoop h (tiles ts) ?run) = forgetRun (tilesLoop h (tiles ts) (forgetRun ?run))"
    by (rule forgetRun_tilesLoop)
  also have "\<dots> = forgetRun (tilesLoop h (tiles ts) (forgetRun ?fresh))"
    by (rule arg_cong [where f = "\<lambda>x. forgetRun (tilesLoop h (tiles ts) x)", OF st])
  also have "\<dots> = forgetRun (tilesLoop h (tiles ts) ?fresh)"
    by (rule forgetRun_tilesLoop [symmetric])
  finally have "forgetRun (tilesLoop h (tiles ts) ?run) = forgetRun (tilesLoop h (tiles ts) ?fresh)" .
  then have "this (forgetRun (tilesLoop h (tiles ts) ?run)) = this (forgetRun (tilesLoop h (tiles ts) ?fresh))"
    by (rule arg_cong)
  then have eq: "(this (tilesLoop h (tiles ts) ?run))\<lparr>fileName := ''''\<rparr>
           = (this (tilesLoop h (tiles ts) ?fresh))\<lparr>fileName := ''''\<rparr>"
    by (simp add: forgetRun_def)
  have r: "getTilesetTemplate h (e\<lparr>shapes := replaceTrailingComma (shapes e)\<rparr>)
         = getTilesetTemplate h ((e\<lparr>fileName := ''''\<rparr>)\<lparr>shapes := replaceTrailingComma (shapes (e\<lparr>fileName := ''''\<rparr>))\<rparr>)" for e :: "('n, 'z) exporter"
    by (simp add: getTilesetTemplate_def)
  show ?thesis
    unfolding renderTileset_def iterateTiles_def Let_def fst_conv tl
    by (subst r, subst (2) r) (simp only: eq)
qed

text \<open>
  Claim C9.  Whatever the destination path and whatever the host's console and files hold
  (in particular after an earlier export of the same tileset), the text written is the
  document of the tileset: a second export writes to its path the text the first wrote to
  its own.
\<close>

theorem export_deterministic:
  "files (formatWrite (h :: ('n, 'z) host) ts f1 w) f1 = Some (renderTileset h ts)
   \<and> files (formatWrite h ts f2 (formatWrite h ts f1 w)) f2 = files (formatWrite h ts f1 w) f1"
proof -
  have fn: "fileName (fst (iterateTiles h (constructor h ts f) con)) = f" for f con
  proof -
    have a: "fileName (this (objectsLoop h t obs s)) = fileName (this s)" for t obs and s :: "('n, 'z) iterState"
      by (induction obs arbitrary: s)
        (simp_all add: objectStep_def exportCollisions_def exportNavigations_def
          exportNavigationShape_def exportShapes_def Let_def)
    have b: "fileName (this (tileStep h t s)) = fileName (this s)" for t and s :: "('n, 'z) iterState"
      by (simp add: tileStep_def Let_def exportObjects_def exportZIndex_def wrapColumn_def a
          split: option.splits)
    have c: "fileName (this (tilesLoop h tls s)) = fileName (this s)" for tls and s :: "('n, 'z) iterState"
      by (induction tls arbitrary: s) (simp_all add: b)
    show ?thesis by (simp add: iterateTiles_def Let_def c initialState_def constructor_def)
  qed
  have one: "files (formatWrite h ts f w') f = Some (renderTileset h ts)" for f w'
    by (simp add: formatWrite_def exporterWrite_def writeToFile_def Let_def split_beta fn
        render_independent)
  show ?thesis by (simp add: one)
qed

end
